theory Spec2Isabelle
  imports Main
begin

section \<open>The collaborators of the degeneracy-handling root stack\<close>

text \<open>
  The header \<^verbatim>\<open>Handle_degeneracy_function_kernel.h\<close> defines the class template
  \<^verbatim>\<open>HDRS\<close>. Everything it wraps is a template parameter: the type of functions
  \<open>'f\<close>, the type of roots \<open>'r\<close> (compared by the precondition), the type
  \<open>'d\<close> of the estimates (\<^verbatim>\<open>double\<close> in the header, never computed with here), and the
  traits object that builds the wrapped solver, the multiplicity classifier and the sign
  evaluator.
\<close>

text \<open>The enumeration \<^verbatim>\<open>CGAL::Sign\<close>, of which the constructor tests \<^verbatim>\<open>CGAL::NEGATIVE\<close>.\<close>

datatype Sign = NEGATIVE | ZERO | POSITIVE

text \<open>
  What a call can do instead of returning: read or pop a root stack that has no root
  left (undefined in the C++), or fail \<^verbatim>\<open>CGAL_expensive_precondition\<close>.
\<close>

datatype error = Empty_root_stack | Precondition_violation

text \<open>
  Modelled from the spec: the class \<^verbatim>\<open>Traits_t::Root_stack\<close> (\<^verbatim>\<open>Wrapped_solver\<close>) is
  not part of the header. The specification describes it as the ordered sequence of the
  roots of the function in the range, with a peek at the top, a pop and an emptiness test;
  peeking or popping when no root is left is outside its contract. The state of the solver
  is therefore the list of the roots it has yet to deliver, first root first.
\<close>

type_synonym 'r Wrapped_solver = "'r list"

definition solver_top :: "'r Wrapped_solver \<Rightarrow> error + 'r" where
  "solver_top s = (case s of [] \<Rightarrow> Inl Empty_root_stack | r # _ \<Rightarrow> Inr r)"

definition solver_pop :: "'r Wrapped_solver \<Rightarrow> error + 'r Wrapped_solver" where
  "solver_pop s = (case s of [] \<Rightarrow> Inl Empty_root_stack | _ # rs \<Rightarrow> Inr rs)"

definition solver_empty :: "'r Wrapped_solver \<Rightarrow> bool" where
  "solver_empty s = (s = [])"

text \<open>
  The three factory methods of the traits object \<^verbatim>\<open>k\<close> that the constructor calls.
\<close>

record ('f, 'r) Traits_t =
  root_stack_object :: "'f \<Rightarrow> 'r \<Rightarrow> 'r \<Rightarrow> 'r Wrapped_solver"
  is_even_multiplicity_object :: "'f \<Rightarrow> 'r \<Rightarrow> bool"
  sign_between_roots_object :: "'r \<Rightarrow> 'r \<Rightarrow> 'f \<Rightarrow> Sign"

text \<open>
  The operations of the types \<^verbatim>\<open>Root\<close>, \<^verbatim>\<open>Function\<close> and \<^verbatim>\<open>Wrapped_solver\<close> that the
  class uses and that are declared elsewhere: the default constructor \<^verbatim>\<open>Root()\<close>, the
  three stream insertion operators, and \<^verbatim>\<open>Wrapped_solver::estimate\<close>. They are parameters
  of the model.
\<close>

record ('f, 'r, 'd) Kernel_types =
  Root_default :: "'r"
  print_Function :: "'f \<Rightarrow> string"
  print_Root :: "'r \<Rightarrow> string"
  print_solver :: "'r Wrapped_solver \<Rightarrow> string"
  solver_estimate :: "'r Wrapped_solver \<Rightarrow> 'd"

section \<open>The class HDRS\<close>

text \<open>The data members, in the order of their declaration.\<close>

record 'r HDRS =
  solver :: "'r Wrapped_solver"
  extra_root :: "'r"
  one_even :: bool
  has_extra :: bool
  iem :: "'r \<Rightarrow> bool"

text \<open>
  The constructor \<^verbatim>\<open>HDRS(uf, lb, ub, k)\<close>. The flag \<open>chk\<close> says whether the build
  checks expensive preconditions. The second component of the result is the text written
  to \<^verbatim>\<open>std::cout\<close>. The member \<^verbatim>\<open>extra_root_\<close> is not in the initialiser list, so it is
  default-constructed unless the degeneracy branch assigns it.
\<close>

definition HDRS_ctor ::
  "bool \<Rightarrow> ('f, 'r::ord, 'd) Kernel_types \<Rightarrow> 'f \<Rightarrow> 'r \<Rightarrow> 'r \<Rightarrow> ('f, 'r) Traits_t
     \<Rightarrow> error + ('r HDRS \<times> string)" where
  "HDRS_ctor chk x uf lb ub k =
     (let s = root_stack_object k uf lb ub;
          i = is_even_multiplicity_object k uf
      in case solver_top s of
           Inl e \<Rightarrow> Inl e
         | Inr t \<Rightarrow>
             if chk \<and> \<not> (t > lb) then Inl Precondition_violation
             else if sign_between_roots_object k lb t uf = NEGATIVE then
               Inr (\<lparr>solver = s, extra_root = lb, one_even = False, has_extra = True, iem = i\<rparr>,
                    ''Degeneracy for '' @ print_Function x uf @ '' between '' @ print_Root x lb
                      @ '' and '' @ print_Root x t @ [CHR 0x0A])
             else
               Inr (\<lparr>solver = s, extra_root = Root_default x, one_even = False,
                      has_extra = False, iem = i\<rparr>, []))"

text \<open>\<^verbatim>\<open>const Root& top() const\<close>\<close>

definition HDRS_top :: "'r HDRS \<Rightarrow> error + 'r" where
  "HDRS_top h = (if has_extra h then Inr (extra_root h) else solver_top (solver h))"

text \<open>
  \<^verbatim>\<open>void pop()\<close>. The condition of its second branch,
  \<^verbatim>\<open>!one_even_ && iem_(solver_.top())\<close>, reads the top of the solver only when
  \<^verbatim>\<open>one_even_\<close> is false.
\<close>

definition pop_condition :: "'r HDRS \<Rightarrow> error + bool" where
  "pop_condition h =
     (if one_even h then Inr False
      else case solver_top (solver h) of Inl e \<Rightarrow> Inl e | Inr t \<Rightarrow> Inr (iem h t))"

definition HDRS_pop :: "('f, 'r, 'd) Kernel_types \<Rightarrow> 'r HDRS \<Rightarrow> error + 'r HDRS" where
  "HDRS_pop x h =
     (if has_extra h then Inr (h\<lparr>extra_root := Root_default x, has_extra := False\<rparr>)
      else case pop_condition h of
             Inl e \<Rightarrow> Inl e
           | Inr b \<Rightarrow>
               if b then Inr (h\<lparr>one_even := True\<rparr>)
               else case solver_pop (solver h) of
                      Inl e \<Rightarrow> Inl e
                    | Inr s \<Rightarrow> Inr (h\<lparr>solver := s, one_even := False\<rparr>))"

text \<open>\<^verbatim>\<open>bool empty() const\<close>\<close>

definition HDRS_empty :: "'r HDRS \<Rightarrow> bool" where
  "HDRS_empty h = (\<not> has_extra h \<and> solver_empty (solver h))"

text \<open>\<^verbatim>\<open>double estimate() const\<close>\<close>

definition HDRS_estimate :: "('f, 'r, 'd) Kernel_types \<Rightarrow> 'r HDRS \<Rightarrow> 'd" where
  "HDRS_estimate x h = solver_estimate x (solver h)"

text \<open>
  \<^verbatim>\<open>std::ostream &write(std::ostream& out) const\<close>: the stream is the text written to it so
  far, and the result is the stream after the insertion.
\<close>

definition HDRS_write :: "('f, 'r, 'd) Kernel_types \<Rightarrow> 'r HDRS \<Rightarrow> string \<Rightarrow> string" where
  "HDRS_write x h out = out @ print_solver x (solver h)"

section \<open>Traversals\<close>

text \<open>
  A client reads \<^verbatim>\<open>top()\<close> and calls \<^verbatim>\<open>pop()\<close> in some order. A traversal stops at the
  first call that is outside the contract; \<^verbatim>\<open>top()\<close> is a const member and leaves the
  object as it is.
\<close>

datatype call = Top | Pop

fun run :: "('f, 'r, 'd) Kernel_types \<Rightarrow> call list \<Rightarrow> 'r HDRS \<Rightarrow> error + 'r HDRS" where
  "run x [] h = Inr h"
| "run x (Top # cs) h = (case HDRS_top h of Inl e \<Rightarrow> Inl e | Inr _ \<Rightarrow> run x cs h)"
| "run x (Pop # cs) h = (case HDRS_pop x h of Inl e \<Rightarrow> Inl e | Inr h' \<Rightarrow> run x cs h')"

text \<open>
  The number of \<^verbatim>\<open>pop()\<close> calls a state still accepts: one for a pending extra root, one
  for each root of the solver, and one more for each of them that the classifier reports
  as even, less the one already spent on the top root when \<^verbatim>\<open>one_even_\<close> is set.
\<close>

definition pops_left :: "'r HDRS \<Rightarrow> nat" where
  "pops_left h =
     (if has_extra h then 1 else 0) + length (solver h) + length (filter (iem h) (solver h))
       - (if one_even h \<and> solver h \<noteq> [] \<and> iem h (hd (solver h)) then 1 else 0)"

section \<open>Fixtures: the scenarios of the specification\<close>

text \<open>
  Roots are integers and functions are named by a number. Function 0 has the roots 2 and 5
  (scenario A), function 1 has the root 3 and is negative between the lower bound and 3
  (scenario B), function 2 has the even root 4 followed by 7 (scenario C).
\<close>

definition scenario_roots :: "nat \<Rightarrow> int \<Rightarrow> int \<Rightarrow> int Wrapped_solver" where
  "scenario_roots uf lb ub =
     filter (\<lambda>r. lb \<le> r \<and> r < ub) (if uf = 0 then [2, 5] else if uf = 1 then [3] else [4, 7])"

definition scenario_even :: "nat \<Rightarrow> int \<Rightarrow> bool" where
  "scenario_even uf r = (uf = 2 \<and> r = 4)"

definition scenario_sign :: "int \<Rightarrow> int \<Rightarrow> nat \<Rightarrow> Sign" where
  "scenario_sign a b uf = (if uf = 1 then NEGATIVE else POSITIVE)"

definition scenario_traits :: "(nat, int) Traits_t" where
  "scenario_traits =
     \<lparr>root_stack_object = scenario_roots,
      is_even_multiplicity_object = scenario_even,
      sign_between_roots_object = scenario_sign\<rparr>"

definition scenario_print :: "int \<Rightarrow> string" where
  "scenario_print r = (if r < 0 then ''-'' else '''') @ replicate (nat \<bar>r\<bar>) CHR ''|''"

definition scenario_kernel :: "(nat, int, int) Kernel_types" where
  "scenario_kernel =
     \<lparr>Root_default = 0,
      print_Function = (\<lambda>uf. replicate uf CHR ''f''),
      print_Root = scenario_print,
      print_solver = concat \<circ> map (\<lambda>r. scenario_print r @ '' ''),
      solver_estimate = (\<lambda>s. case s of [] \<Rightarrow> 0 | r # _ \<Rightarrow> r)\<rparr>"

text \<open>The states of scenario C before any pop and after one, two and three pops.\<close>

definition scenario_C0 :: "int HDRS" where
  "scenario_C0 =
     \<lparr>solver = [4, 7], extra_root = 0, one_even = False, has_extra = False,
      iem = scenario_even 2\<rparr>"

definition scenario_C1 :: "int HDRS" where
  "scenario_C1 = scenario_C0\<lparr>one_even := True\<rparr>"

definition scenario_C2 :: "int HDRS" where
  "scenario_C2 = scenario_C0\<lparr>solver := [7]\<rparr>"

definition scenario_C3 :: "int HDRS" where
  "scenario_C3 = scenario_C0\<lparr>solver := []\<rparr>"

text \<open>The state of scenario B before any pop, and after one.\<close>

definition scenario_B0 :: "int HDRS" where
  "scenario_B0 =
     \<lparr>solver = [3], extra_root = - 1, one_even = False, has_extra = True,
      iem = scenario_even 1\<rparr>"

definition scenario_B1 :: "int HDRS" where
  "scenario_B1 = scenario_B0\<lparr>extra_root := 0, has_extra := False\<rparr>"

section \<open>Basic facts\<close>

lemma solver_top_Cons [simp]: "solver_top (r # rs) = Inr r"
  by (simp add: solver_top_def)

lemma solver_top_Nil [simp]: "solver_top [] = Inl Empty_root_stack"
  by (simp add: solver_top_def)

lemma solver_pop_Cons [simp]: "solver_pop (r # rs) = Inr rs"
  by (simp add: solver_pop_def)

lemma solver_pop_Nil [simp]: "solver_pop [] = Inl Empty_root_stack"
  by (simp add: solver_pop_def)

lemma scenario_ctor_C:
  "HDRS_ctor True scenario_kernel 2 0 10 scenario_traits = Inr (scenario_C0, [])"
  by (simp add: HDRS_ctor_def scenario_traits_def scenario_kernel_def scenario_roots_def
      scenario_sign_def scenario_C0_def)

lemma scenario_ctor_B:
  "HDRS_ctor True scenario_kernel 1 (- 1) 10 scenario_traits =
     Inr (scenario_B0, ''Degeneracy for f between -| and |||'' @ [CHR 0x0A])"
  by (simp add: HDRS_ctor_def scenario_traits_def scenario_kernel_def scenario_roots_def
      scenario_sign_def scenario_B0_def scenario_print_def numeral_3_eq_3)

lemma scenario_pop_C0: "HDRS_pop scenario_kernel scenario_C0 = Inr scenario_C1"
  by (simp add: HDRS_pop_def pop_condition_def scenario_C0_def scenario_C1_def scenario_even_def)

lemma scenario_pop_C1: "HDRS_pop scenario_kernel scenario_C1 = Inr scenario_C2"
  by (simp add: HDRS_pop_def pop_condition_def scenario_C0_def scenario_C1_def scenario_C2_def)

lemma scenario_pop_B0: "HDRS_pop scenario_kernel scenario_B0 = Inr scenario_B1"
  by (simp add: HDRS_pop_def pop_condition_def scenario_B0_def scenario_B1_def scenario_kernel_def)

lemma scenario_pop_C2: "HDRS_pop scenario_kernel scenario_C2 = Inr scenario_C3"
  by (simp add: HDRS_pop_def pop_condition_def scenario_C0_def scenario_C2_def scenario_C3_def
      scenario_even_def)

lemma scenario_run_C:
  "run scenario_kernel (replicate 2 Pop) scenario_C0 = Inr scenario_C2"
  "run scenario_kernel (replicate 3 Pop) scenario_C0 = Inr scenario_C3"
  by (simp_all add: numeral_2_eq_2 numeral_3_eq_3 scenario_pop_C0 scenario_pop_C1
      scenario_pop_C2)

lemma scenario_empty:
  "\<not> HDRS_empty scenario_C0" "\<not> HDRS_empty scenario_C1" "\<not> HDRS_empty scenario_C2"
  "HDRS_empty scenario_C3" "\<not> HDRS_empty scenario_B0" "\<not> HDRS_empty scenario_B1"
  by (simp_all add: HDRS_empty_def solver_empty_def scenario_C0_def scenario_C1_def
      scenario_C2_def scenario_C3_def scenario_B0_def scenario_B1_def)

section \<open>How many pops a state accepts\<close>

lemma pops_left_empty: "HDRS_empty h \<longleftrightarrow> pops_left h = 0"
proof (cases "solver h")
  case Nil
  then show ?thesis
    by (simp add: HDRS_empty_def solver_empty_def pops_left_def)
next
  case (Cons r rs)
  then show ?thesis
    by (simp add: HDRS_empty_def solver_empty_def pops_left_def)
qed

lemma pop_pops_left:
  assumes "0 < pops_left h"
  shows "\<exists>h'. HDRS_pop x h = Inr h' \<and> Suc (pops_left h') = pops_left h"
proof (cases "has_extra h")
  case True
  then show ?thesis
    by (cases "solver h") (simp_all add: HDRS_pop_def pop_condition_def pops_left_def)
next
  case False
  with assms obtain r rs where s: "solver h = r # rs"
    by (cases "solver h") (simp_all add: pops_left_def)
  with False show ?thesis
    by (simp add: HDRS_pop_def pop_condition_def pops_left_def)
qed

lemma pop_empty_fails: "HDRS_empty h \<Longrightarrow> HDRS_pop x h = Inl Empty_root_stack"
  by (simp add: HDRS_empty_def solver_empty_def HDRS_pop_def pop_condition_def)

lemma run_pops:
  "n \<le> pops_left h \<Longrightarrow>
     \<exists>h'. run x (replicate n Pop) h = Inr h' \<and> pops_left h' + n = pops_left h"
proof (induction n arbitrary: h)
  case 0
  then show ?case by simp
next
  case (Suc n)
  then have "0 < pops_left h" by simp
  then obtain h1 where h1: "HDRS_pop x h = Inr h1" "Suc (pops_left h1) = pops_left h"
    using pop_pops_left by blast
  with Suc.prems have "n \<le> pops_left h1" by simp
  then obtain h' where "run x (replicate n Pop) h1 = Inr h'" "pops_left h' + n = pops_left h1"
    using Suc.IH by blast
  with h1 show ?case by simp
qed

section \<open>What the constructor and a traversal preserve\<close>

lemma ctor_result:
  assumes "HDRS_ctor chk x uf lb ub k = Inr (h0, out)"
  shows "solver h0 = root_stack_object k uf lb ub"
    and "iem h0 = is_even_multiplicity_object k uf"
    and "\<not> one_even h0"
    and "solver h0 \<noteq> []"
    and "has_extra h0 \<longleftrightarrow>
           sign_between_roots_object k lb (hd (root_stack_object k uf lb ub)) uf = NEGATIVE"
  using assms
  by (auto simp: HDRS_ctor_def Let_def solver_top_def split: list.splits if_splits)

lemma pop_clears_has_extra: "HDRS_pop x h = Inr h' \<Longrightarrow> \<not> has_extra h'"
  by (auto simp: HDRS_pop_def pop_condition_def split: if_splits sum.splits)

lemma run_not_both:
  "run x cs h = Inr h' \<Longrightarrow> \<not> (has_extra h \<and> one_even h) \<Longrightarrow> \<not> (has_extra h' \<and> one_even h')"
proof (induction cs arbitrary: h)
  case Nil
  then show ?case by simp
next
  case (Cons c cs)
  show ?case
  proof (cases c)
    case Top
    with Cons show ?thesis by (auto split: sum.splits)
  next
    case Pop
    with Cons.prems obtain h1 where h1: "HDRS_pop x h = Inr h1" "run x cs h1 = Inr h'"
      by (auto split: sum.splits)
    then have "\<not> has_extra h1" using pop_clears_has_extra by blast
    with h1 Cons.IH show ?thesis by blast
  qed
qed

lemma run_has_extra: "run x cs h = Inr h' \<Longrightarrow> has_extra h' \<Longrightarrow> has_extra h \<and> h' = h"
proof (induction cs arbitrary: h)
  case Nil
  then show ?case by simp
next
  case (Cons c cs)
  show ?case
  proof (cases c)
    case Top
    with Cons show ?thesis by (auto split: sum.splits)
  next
    case Pop
    with Cons.prems obtain h1 where h1: "HDRS_pop x h = Inr h1" "run x cs h1 = Inr h'"
      by (auto split: sum.splits)
    then have "\<not> has_extra h1" using pop_clears_has_extra by blast
    with h1 Cons.IH Cons.prems show ?thesis by blast
  qed
qed

section \<open>The claims\<close>

text \<open>
  C1. On every state that is not empty, \<^verbatim>\<open>pop()\<close> returns normally and is a three-way
  branch. With \<open>has_extra\<close> set it resets \<open>extra_root\<close> to the default root and clears
  \<open>has_extra\<close>, and changes nothing else (neither \<open>one_even\<close> nor the solver).
  Otherwise, with \<open>one_even\<close> clear and the top of the solver classified as even, it sets
  \<open>one_even\<close> and changes nothing else. Otherwise it pops the solver and clears
  \<open>one_even\<close>.
\<close>

theorem C1_pop_three_way:
  assumes "\<not> HDRS_empty h"
  shows "HDRS_pop x h =
           (if has_extra h then Inr (h\<lparr>extra_root := Root_default x, has_extra := False\<rparr>)
            else if \<not> one_even h \<and> iem h (hd (solver h)) then Inr (h\<lparr>one_even := True\<rparr>)
            else Inr (h\<lparr>solver := tl (solver h), one_even := False\<rparr>))"
proof (cases "has_extra h")
  case True
  then show ?thesis by (simp add: HDRS_pop_def pop_condition_def)
next
  case False
  with assms obtain r rs where "solver h = r # rs"
    by (cases "solver h") (simp_all add: HDRS_empty_def solver_empty_def)
  with False show ?thesis
    by (simp add: HDRS_pop_def pop_condition_def)
qed

theorem C1_pop_three_way_witness:
  "\<not> HDRS_empty scenario_C0 \<and> HDRS_pop scenario_kernel scenario_C0 = Inr scenario_C1
   \<and> \<not> HDRS_empty scenario_B0
   \<and> HDRS_pop scenario_kernel scenario_B0 = Inr (scenario_B0\<lparr>extra_root := 0, has_extra := False\<rparr>)
   \<and> \<not> HDRS_empty scenario_C1
   \<and> HDRS_pop scenario_kernel scenario_C1 = Inr (scenario_C1\<lparr>solver := [7], one_even := False\<rparr>)"
proof -
  have c0: "\<not> HDRS_empty scenario_C0" and b0: "\<not> HDRS_empty scenario_B0"
    and c1: "\<not> HDRS_empty scenario_C1"
    by (simp_all add: scenario_empty)
  show ?thesis
    using c0 b0 c1
      C1_pop_three_way [OF c0, of scenario_kernel]
      C1_pop_three_way [OF b0, of scenario_kernel]
      C1_pop_three_way [OF c1, of scenario_kernel]
    by (simp add: scenario_C0_def scenario_C1_def scenario_B0_def scenario_even_def
        scenario_kernel_def)
qed

text \<open>
  C2, as stated: \<^verbatim>\<open>empty()\<close> becomes true after exactly \<open>N + D\<close> pops, whatever the
  classifier says. Scenario C refutes it: the solver holds the two roots 4 and 7, no
  degeneracy is detected, and after \<open>2 + 0\<close> pops the root 7 is still there.
\<close>

theorem C2_counterexample:
  "HDRS_ctor True scenario_kernel 2 0 10 scenario_traits = Inr (scenario_C0, [])
   \<and> length (root_stack_object scenario_traits 2 0 10)
       + (if has_extra scenario_C0 then 1 else 0) = (2::nat)
   \<and> run scenario_kernel (replicate 2 Pop) scenario_C0 = Inr scenario_C2
   \<and> \<not> HDRS_empty scenario_C2"
proof -
  have "length (root_stack_object scenario_traits 2 0 10)
          + (if has_extra scenario_C0 then 1 else 0) = (2::nat)"
    by (simp add: scenario_traits_def scenario_roots_def scenario_C0_def)
  then show ?thesis
    by (simp add: scenario_ctor_C scenario_run_C scenario_empty)
qed

text \<open>
  C2, amended. Let \<open>N\<close> be the number of roots of the solver, \<open>D\<close> be 1 if the
  constructor found the sign between \<open>lb\<close> and the first root negative and 0 otherwise,
  and \<open>E\<close> the number of roots of the solver that the classifier reports as even. Then the
  first \<open>N + D + E\<close> pops all return normally, \<^verbatim>\<open>empty()\<close> is false before each of them
  and true after the last.
\<close>

theorem C2_pops_until_empty:
  assumes "HDRS_ctor chk x uf lb ub k = Inr (h0, out)"
    and "m = length (root_stack_object k uf lb ub)
           + (if sign_between_roots_object k lb (hd (root_stack_object k uf lb ub)) uf = NEGATIVE
              then 1 else 0)
           + length (filter (is_even_multiplicity_object k uf) (root_stack_object k uf lb ub))"
  shows "(\<exists>h. run x (replicate m Pop) h0 = Inr h \<and> HDRS_empty h)
         \<and> (\<forall>n<m. \<exists>h. run x (replicate n Pop) h0 = Inr h \<and> \<not> HDRS_empty h)"
proof -
  have left: "pops_left h0 = m"
    using ctor_result [OF assms(1)] assms(2) by (simp add: pops_left_def)
  have after: "\<exists>h. run x (replicate n Pop) h0 = Inr h \<and> pops_left h + n = m"
    if "n \<le> m" for n
    using run_pops [of n h0 x] that left by simp
  have "\<exists>h. run x (replicate m Pop) h0 = Inr h \<and> HDRS_empty h"
    using after [of m] by (auto simp: pops_left_empty)
  moreover have "\<exists>h. run x (replicate n Pop) h0 = Inr h \<and> \<not> HDRS_empty h" if "n < m" for n
  proof -
    from that obtain h where "run x (replicate n Pop) h0 = Inr h" "pops_left h + n = m"
      using after [of n] by auto
    with that show ?thesis by (auto simp: pops_left_empty)
  qed
  ultimately show ?thesis by blast
qed

theorem C2_pops_until_empty_witness:
  "HDRS_ctor True scenario_kernel 2 0 10 scenario_traits = Inr (scenario_C0, [])
   \<and> (\<exists>h. run scenario_kernel (replicate (2 + 0 + 1) Pop) scenario_C0 = Inr h \<and> HDRS_empty h)
   \<and> run scenario_kernel (replicate 2 Pop) scenario_C0 = Inr scenario_C2
   \<and> \<not> HDRS_empty scenario_C2"
proof -
  have tot: "(2 + 0 + 1 :: nat) = length (root_stack_object scenario_traits 2 0 10)
      + (if sign_between_roots_object scenario_traits 0
             (hd (root_stack_object scenario_traits 2 0 10)) 2 = NEGATIVE then 1 else 0)
      + length (filter (is_even_multiplicity_object scenario_traits 2)
          (root_stack_object scenario_traits 2 0 10))"
    by (simp add: scenario_traits_def scenario_roots_def scenario_sign_def scenario_even_def)
  show ?thesis
    using C2_pops_until_empty [OF scenario_ctor_C tot]
    by (simp add: scenario_ctor_C scenario_run_C scenario_empty)
qed

text \<open>
  C3. When the solver built for \<open>(uf, lb, ub)\<close> has a first root \<open>t\<close> (above \<open>lb\<close>
  where the precondition is checked), the constructor returns an object on that solver
  with \<open>one_even\<close> false. If the sign between \<open>lb\<close> and \<open>t\<close> is NEGATIVE, then
  \<open>has_extra\<close> is true, \<open>extra_root\<close> is \<open>lb\<close> and the diagnostic line is written;
  for every other sign \<open>has_extra\<close> is false and nothing is written.
\<close>

theorem C3_constructor:
  assumes "root_stack_object k uf lb ub = t # ts"
    and "chk \<longrightarrow> lb < t"
  shows "\<exists>h out. HDRS_ctor chk x uf lb ub k = Inr (h, out)
           \<and> solver h = t # ts \<and> iem h = is_even_multiplicity_object k uf \<and> \<not> one_even h
           \<and> (if sign_between_roots_object k lb t uf = NEGATIVE
               then has_extra h \<and> extra_root h = lb
                 \<and> out = ''Degeneracy for '' @ print_Function x uf @ '' between ''
                     @ print_Root x lb @ '' and '' @ print_Root x t @ [CHR 0x0A]
               else \<not> has_extra h \<and> out = [])"
proof (cases "sign_between_roots_object k lb t uf = NEGATIVE")
  case True
  with assms show ?thesis by (simp add: HDRS_ctor_def Let_def)
next
  case False
  with assms show ?thesis by (simp add: HDRS_ctor_def Let_def)
qed

theorem C3_constructor_witness:
  "root_stack_object scenario_traits 1 (- 1) 10 = [3] \<and> (- 1 :: int) < 3
   \<and> sign_between_roots_object scenario_traits (- 1) 3 1 = NEGATIVE
   \<and> (\<exists>h out. HDRS_ctor True scenario_kernel 1 (- 1) 10 scenario_traits = Inr (h, out)
        \<and> has_extra h \<and> extra_root h = - 1 \<and> \<not> one_even h
        \<and> out = ''Degeneracy for f between -| and |||'' @ [CHR 0x0A])"
proof -
  have s: "root_stack_object scenario_traits 1 (- 1) 10 = [3]"
    by (simp add: scenario_traits_def scenario_roots_def)
  have c: "True \<longrightarrow> (- 1 :: int) < 3" by simp
  have n: "sign_between_roots_object scenario_traits (- 1) 3 1 = NEGATIVE"
    by (simp add: scenario_traits_def scenario_sign_def)
  have p: "print_Function scenario_kernel (1::nat) = ''f''"
    "print_Root scenario_kernel (- 1) = ''-|''" "print_Root scenario_kernel 3 = ''|||''"
    by (simp_all add: scenario_kernel_def scenario_print_def numeral_3_eq_3)
  show ?thesis
    using C3_constructor [OF s c, of scenario_kernel] s n p by auto
qed

text \<open>
  C4. In a state with \<open>has_extra\<close> and \<open>one_even\<close> false whose solver has the top root
  \<open>r\<close>, classified as even: one \<^verbatim>\<open>pop()\<close> leaves the solver as it is, so that
  \<^verbatim>\<open>top()\<close> is \<open>r\<close> before and after it, and the \<^verbatim>\<open>pop()\<close> that follows pops the solver
  and leaves \<open>one_even\<close> false. Hence no second suppression happens before a pop of
  the solver.
\<close>

theorem C4_even_root_suppressed_once:
  assumes "\<not> has_extra h" and "\<not> one_even h"
    and "solver_top (solver h) = Inr r" and "iem h r"
  shows "\<exists>h1 h2. HDRS_top h = Inr r
           \<and> HDRS_pop x h = Inr h1 \<and> solver h1 = solver h \<and> HDRS_top h1 = Inr r
           \<and> HDRS_pop x h1 = Inr h2 \<and> solver_pop (solver h) = Inr (solver h2)
           \<and> \<not> one_even h2"
proof -
  from assms(3) obtain rs where "solver h = r # rs"
    by (cases "solver h") simp_all
  with assms show ?thesis
    by (simp add: HDRS_top_def HDRS_pop_def pop_condition_def)
qed

theorem C4_even_root_suppressed_once_witness:
  "\<not> has_extra scenario_C0 \<and> \<not> one_even scenario_C0
   \<and> solver_top (solver scenario_C0) = Inr 4 \<and> iem scenario_C0 4
   \<and> (\<exists>h1 h2. HDRS_top scenario_C0 = Inr 4
        \<and> HDRS_pop scenario_kernel scenario_C0 = Inr h1 \<and> HDRS_top h1 = Inr 4
        \<and> HDRS_pop scenario_kernel h1 = Inr h2 \<and> solver h2 = [7])"
proof -
  have a: "\<not> has_extra scenario_C0" "\<not> one_even scenario_C0"
    "solver_top (solver scenario_C0) = Inr 4" "iem scenario_C0 4"
    by (simp_all add: scenario_C0_def scenario_even_def)
  have "solver_pop (solver scenario_C0) = Inr [7]"
    by (simp add: scenario_C0_def)
  then show ?thesis
    using a C4_even_root_suppressed_once [OF a, of scenario_kernel] by auto
qed

text \<open>
  C5. On a state that is not empty, \<^verbatim>\<open>top()\<close> returns \<open>extra_root\<close> when
  \<open>has_extra\<close> is set and the top of the solver otherwise; it changes no state, so a
  traversal continues after it as if it had not been called. \<^verbatim>\<open>empty()\<close> is true exactly
  when \<open>has_extra\<close> is false and the solver is empty.
\<close>

theorem C5_top_and_empty:
  "(HDRS_empty h \<longleftrightarrow> \<not> has_extra h \<and> solver_empty (solver h))
   \<and> (\<not> HDRS_empty h \<longrightarrow>
        HDRS_top h = Inr (if has_extra h then extra_root h else hd (solver h))
        \<and> run x (Top # cs) h = run x cs h)"
proof (cases "solver h")
  case Nil
  then show ?thesis
    by (simp add: HDRS_empty_def solver_empty_def HDRS_top_def)
next
  case (Cons r rs)
  then show ?thesis
    by (simp add: HDRS_empty_def solver_empty_def HDRS_top_def)
qed

theorem C5_top_and_empty_witness:
  "\<not> HDRS_empty scenario_B0 \<and> HDRS_top scenario_B0 = Inr (- 1)
   \<and> run scenario_kernel [Top, Pop] scenario_B0 = Inr scenario_B1
   \<and> \<not> HDRS_empty scenario_B1 \<and> HDRS_top scenario_B1 = Inr 3"
proof -
  have e: "\<not> HDRS_empty scenario_B0" "\<not> HDRS_empty scenario_B1"
    by (simp_all add: scenario_empty)
  have f: "has_extra scenario_B0" "extra_root scenario_B0 = - 1"
    "\<not> has_extra scenario_B1" "hd (solver scenario_B1) = 3"
    by (simp_all add: scenario_B0_def scenario_B1_def)
  show ?thesis
    using e f C5_top_and_empty [of scenario_B0 scenario_kernel "[Pop]"]
      C5_top_and_empty [of scenario_B1 scenario_kernel "[]"]
    by (simp add: scenario_pop_B0)
qed

text \<open>
  C6. When the sign between \<open>lb\<close> and the first root of the solver is NEGATIVE at
  construction, the first \<^verbatim>\<open>top()\<close> returns \<open>lb\<close>, and the first \<^verbatim>\<open>pop()\<close> clears
  the extra root and leaves the solver with exactly the roots it was built with.
\<close>

theorem C6_extra_root_first:
  assumes "root_stack_object k uf lb ub = t # ts"
    and "chk \<longrightarrow> lb < t"
    and "sign_between_roots_object k lb t uf = NEGATIVE"
  shows "\<exists>h out h'. HDRS_ctor chk x uf lb ub k = Inr (h, out)
           \<and> HDRS_top h = Inr lb
           \<and> HDRS_pop x h = Inr h'
           \<and> \<not> has_extra h' \<and> extra_root h' = Root_default x
           \<and> solver h' = solver h \<and> solver h = root_stack_object k uf lb ub
           \<and> run x [Top, Pop, Top] h = Inr h' \<and> HDRS_top h' = Inr t"
  using assms by (simp add: HDRS_ctor_def Let_def HDRS_top_def HDRS_pop_def pop_condition_def)

theorem C6_extra_root_first_witness:
  "root_stack_object scenario_traits 1 (- 1) 10 = [3] \<and> (- 1 :: int) < 3
   \<and> sign_between_roots_object scenario_traits (- 1) 3 1 = NEGATIVE
   \<and> (\<exists>h out h'. HDRS_ctor True scenario_kernel 1 (- 1) 10 scenario_traits = Inr (h, out)
        \<and> HDRS_top h = Inr (- 1) \<and> HDRS_pop scenario_kernel h = Inr h'
        \<and> solver h' = [3] \<and> solver h = [3])"
proof -
  have s: "root_stack_object scenario_traits 1 (- 1) 10 = [3]"
    by (simp add: scenario_traits_def scenario_roots_def)
  have c: "True \<longrightarrow> (- 1 :: int) < 3" by simp
  have n: "sign_between_roots_object scenario_traits (- 1) 3 1 = NEGATIVE"
    by (simp add: scenario_traits_def scenario_sign_def)
  show ?thesis
    using C6_extra_root_first [OF s c n, of scenario_kernel] s n by auto
qed

text \<open>
  C7. In every state reached from a constructed object by \<^verbatim>\<open>top()\<close> and \<^verbatim>\<open>pop()\<close> calls,
  a \<^verbatim>\<open>pop()\<close> that clears the extra root, or that changes the solver, ends with
  \<open>one_even\<close> false.
\<close>

theorem C7_one_even_reset:
  assumes "HDRS_ctor chk x uf lb ub k = Inr (h0, out)"
    and "run x cs h0 = Inr h"
    and "HDRS_pop x h = Inr h'"
    and "has_extra h \<or> solver h' \<noteq> solver h"
  shows "\<not> one_even h'"
proof (cases "has_extra h")
  case True
  have "\<not> one_even h0" using ctor_result(3) [OF assms(1)] .
  then have "\<not> (has_extra h \<and> one_even h)"
    using run_not_both [OF assms(2)] by blast
  with True have "\<not> one_even h" by simp
  with True assms(3) show ?thesis by (auto simp: HDRS_pop_def pop_condition_def)
next
  case False
  with assms(3,4) show ?thesis
    by (auto simp: HDRS_pop_def pop_condition_def split: if_splits sum.splits)
qed

theorem C7_one_even_reset_witness:
  "HDRS_ctor True scenario_kernel 1 (- 1) 10 scenario_traits =
     Inr (scenario_B0, ''Degeneracy for f between -| and |||'' @ [CHR 0x0A])
   \<and> run scenario_kernel [Top] scenario_B0 = Inr scenario_B0
   \<and> HDRS_pop scenario_kernel scenario_B0 = Inr scenario_B1
   \<and> has_extra scenario_B0 \<and> \<not> one_even scenario_B1"
proof -
  have r: "run scenario_kernel [Top] scenario_B0 = Inr scenario_B0"
    by (simp add: HDRS_top_def scenario_B0_def)
  have e: "has_extra scenario_B0 \<or> solver scenario_B1 \<noteq> solver scenario_B0"
    by (simp add: scenario_B0_def)
  have "has_extra scenario_B0" by (simp add: scenario_B0_def)
  then show ?thesis
    using C7_one_even_reset [OF scenario_ctor_B r scenario_pop_B0 e]
      scenario_ctor_B r scenario_pop_B0
    by simp
qed

text \<open>
  C8. In every state reached from a constructed object by \<^verbatim>\<open>top()\<close> and \<^verbatim>\<open>pop()\<close> calls,
  \<open>has_extra\<close> and \<open>one_even\<close> are not both true; and \<open>has_extra\<close> is true only if the
  constructor set it and no call has changed the object since.
\<close>

theorem C8_extra_and_even_exclusive:
  assumes "HDRS_ctor chk x uf lb ub k = Inr (h0, out)"
    and "run x cs h0 = Inr h"
  shows "\<not> (has_extra h \<and> one_even h) \<and> (has_extra h \<longrightarrow> has_extra h0 \<and> h = h0)"
proof -
  have "\<not> one_even h0" using ctor_result(3) [OF assms(1)] .
  then have "\<not> (has_extra h \<and> one_even h)"
    using run_not_both [OF assms(2)] by blast
  moreover have "has_extra h \<longrightarrow> has_extra h0 \<and> h = h0"
    using run_has_extra [OF assms(2)] by blast
  ultimately show ?thesis by blast
qed

theorem C8_extra_and_even_exclusive_witness:
  "HDRS_ctor True scenario_kernel 2 0 10 scenario_traits = Inr (scenario_C0, [])
   \<and> run scenario_kernel [Top, Pop, Top] scenario_C0 = Inr scenario_C1
   \<and> one_even scenario_C1 \<and> \<not> has_extra scenario_C1"
proof -
  have t: "HDRS_top scenario_C0 = Inr 4" "HDRS_top scenario_C1 = Inr 4"
    by (simp_all add: HDRS_top_def scenario_C0_def scenario_C1_def)
  have r: "run scenario_kernel [Top, Pop, Top] scenario_C0 = Inr scenario_C1"
    by (simp add: t scenario_pop_C0)
  have "one_even scenario_C1" by (simp add: scenario_C1_def)
  then show ?thesis
    using C8_extra_and_even_exclusive [OF scenario_ctor_C r] scenario_ctor_C r by simp
qed

text \<open>
  C9. \<^verbatim>\<open>estimate()\<close> is the estimate of the solver, whatever \<open>has_extra\<close>,
  \<open>extra_root\<close> and \<open>one_even\<close> are: two states on the same solver have the same
  estimate. While \<open>has_extra\<close> is true, \<^verbatim>\<open>top()\<close> is \<open>extra_root\<close> and the estimate is
  still that of the solver.
\<close>

theorem C9_estimate_delegates:
  "HDRS_estimate x h = solver_estimate x (solver h)
   \<and> HDRS_estimate x (h\<lparr>extra_root := r, one_even := a, has_extra := b\<rparr>) = HDRS_estimate x h
   \<and> (has_extra h \<longrightarrow> HDRS_top h = Inr (extra_root h))"
  by (simp add: HDRS_estimate_def HDRS_top_def)

theorem C9_estimate_delegates_witness:
  "has_extra scenario_B0 \<and> HDRS_top scenario_B0 = Inr (- 1)
   \<and> HDRS_estimate scenario_kernel scenario_B0 = 3
   \<and> HDRS_estimate scenario_kernel scenario_B1 = 3"
proof -
  have "has_extra scenario_B0" "extra_root scenario_B0 = - 1"
    "solver_estimate scenario_kernel (solver scenario_B0) = 3"
    "scenario_B0\<lparr>extra_root := 0, one_even := False, has_extra := False\<rparr> = scenario_B1"
    by (simp_all add: scenario_B0_def scenario_B1_def scenario_kernel_def)
  then show ?thesis
    using C9_estimate_delegates
      [where x = scenario_kernel and h = scenario_B0 and r = 0 and a = False and b = False]
    by simp
qed

text \<open>
  C10. \<^verbatim>\<open>write()\<close> appends the text of the solver to the stream and nothing else: two
  states on equal solvers write the same text to the same stream, whatever their
  \<open>has_extra\<close>, \<open>extra_root\<close> and \<open>one_even\<close>.
\<close>

theorem C10_write_solver_only:
  "HDRS_write x h out = out @ print_solver x (solver h)
   \<and> (solver ha = solver hb \<longrightarrow> HDRS_write x ha out = HDRS_write x hb out)"
  by (simp add: HDRS_write_def)

theorem C10_write_solver_only_witness:
  "solver scenario_C0 = solver scenario_C1 \<and> one_even scenario_C0 \<noteq> one_even scenario_C1
   \<and> HDRS_write scenario_kernel scenario_C0 ''s: '' = HDRS_write scenario_kernel scenario_C1 ''s: ''"
proof -
  have s: "solver scenario_C0 = solver scenario_C1"
    and e: "one_even scenario_C0 \<noteq> one_even scenario_C1"
    by (simp_all add: scenario_C0_def scenario_C1_def)
  have "solver scenario_C0 = solver scenario_C1 \<longrightarrow>
      HDRS_write scenario_kernel scenario_C0 ''s: '' = HDRS_write scenario_kernel scenario_C1 ''s: ''"
    using C10_write_solver_only
      [where x = scenario_kernel and ha = scenario_C0 and hb = scenario_C1
         and out = "''s: ''"]
    by (rule conjunct2)
  with s e show ?thesis by blast
qed

end
